theory Spec2Isabelle
  imports Complex_Main
begin

section \<open>Common data: exceptions, opaque values, table specifications\<close>

text \<open>
  Python floats are idealised as real numbers: rounding, infinities and NaN operands are
  outside the model. The one NaN the code itself produces (the mean of an empty list) is
  modelled explicitly further down.

  An assertion message built by an f-string is kept as its sequence of parts, the literal
  text and the interpolated values, so that nothing depends on how a float is printed.
\<close>

datatype msg_part = Lit string | FloatVal "real option" | OpaqueVal "nat option"

text \<open>
  The exceptions this module raises itself, by \<^verbatim>\<open>assert\<close>, by \<^verbatim>\<open>raise\<close>, by
  an attribute lookup or inside a library call it makes. An exception raised inside a
  collaborator propagates through the module unchanged; the model keeps its text and the
  fact that it came from a collaborator (\<open>CollaboratorError\<close>), so that it is never
  confused with one of the module's own.
\<close>

datatype exn =
    AssertionError "msg_part list"
  | ValueError string
  | AttributeError string
  | RuntimeError string
  | CollaboratorError string

text \<open>What a collaborator's method does: it raises (with some text) or returns.\<close>

type_synonym 'a outcome = "string + 'a"

text \<open>
  Values that the orchestrator only passes through (datasets, option bundles, training
  results, normalization statistics) are opaque handles.
\<close>

type_synonym opaque = nat

record table_spec =
  table_name :: string
  table_sample :: "real option"
  eval_table_sample :: "real option"

section \<open>Sample ranges (\<^verbatim>\<open>reagent/workflow/training.py\<close>, lines 77--115)\<close>

type_synonym sample_range = "real \<times> real"

record TrainEvalSampleRanges =
  train_sample_range :: sample_range
  eval_sample_range :: sample_range

text \<open>The f-string of lines 100--107.\<close>

definition error_msg :: "real option \<Rightarrow> real option \<Rightarrow> msg_part list" where
  "error_msg ts ets =
     [Lit ''calc_cpe_in_training is set to True. '',
      Lit ''Please specify table_sample(current='', FloatVal ts, Lit '') and '',
      Lit ''eval_table_sample(current='', FloatVal ets, Lit '') such that '',
      Lit ''eval_table_sample + table_sample <= 100. '',
      Lit ''In order to reliably calculate CPE, eval_table_sample '',
      Lit ''should not be too small.'']"

text \<open>
  \<^verbatim>\<open>get_sample_range\<close>: the three \<^verbatim>\<open>assert\<close> statements are checked in the
  order of the source, each raising \<^verbatim>\<open>AssertionError(error_msg)\<close>.
\<close>

definition get_sample_range :: "table_spec \<Rightarrow> bool \<Rightarrow> exn + TrainEvalSampleRanges" where
  "get_sample_range input_table_spec calc_cpe_in_training =
     (let ts = table_sample input_table_spec;
          ets = eval_table_sample input_table_spec
      in if \<not> calc_cpe_in_training then
           Inr \<lparr>train_sample_range =
                  (case ts of None \<Rightarrow> (0, 100) | Some t \<Rightarrow> (0, t)),
                eval_sample_range = (0, 0)\<rparr>
         else
           (case ts of
              None \<Rightarrow> Inl (AssertionError (error_msg ts ets))
            | Some t \<Rightarrow>
               (case ets of
                  None \<Rightarrow> Inl (AssertionError (error_msg ts ets))
                | Some e \<Rightarrow>
                    if e + t \<le> 100 + 1 / 1000 then
                      Inr \<lparr>train_sample_range = (0, t),
                           eval_sample_range = (100 - e, 100)\<rparr>
                    else Inl (AssertionError (error_msg ts ets)))))"

text \<open>
  Two percentage windows overlap when their intersection has positive length.
\<close>

definition ranges_overlap :: "sample_range \<Rightarrow> sample_range \<Rightarrow> bool" where
  "ranges_overlap r1 r2 \<longleftrightarrow> max (fst r1) (fst r2) < min (snd r1) (snd r2)"


section \<open>Collaborators and the call trace\<close>

text \<open>
  Modelled from the spec: \<^verbatim>\<open>RLTrainingOutput\<close> is declared in
  \<^verbatim>\<open>reagent.workflow.types\<close>, which is not part of the sources at hand. The
  specification describes it as the base training results plus two optional fields,
  \<^verbatim>\<open>validation_result\<close> and \<^verbatim>\<open>publishing_result\<close>, each initially unset.
\<close>

record RLTrainingOutput =
  training_results :: opaque
  validation_result :: "opaque option"
  publishing_result :: "opaque option"

text \<open>
  Attribute lookup on a training output: the declared fields are found, any other name
  raises \<^verbatim>\<open>AttributeError\<close>.
\<close>

definition getattr_output :: "RLTrainingOutput \<Rightarrow> string \<Rightarrow> exn + opaque option" where
  "getattr_output t name =
     (if name = ''training_results'' then Inr (Some (training_results t))
      else if name = ''validation_result'' then Inr (validation_result t)
      else if name = ''publishing_result'' then Inr (publishing_result t)
      else Inl (AttributeError name))"

type_synonym bytes = string
type_synonym setup_data_dict = "string \<rightharpoonup> bytes"
type_synonym normalization_dict = "string \<rightharpoonup> opaque"
type_synonym module_ids = "string \<rightharpoonup> int"

text \<open>A saved setup-data value is raw bytes or a blob carrying them in \<^verbatim>\<open>.data\<close>.\<close>

datatype saved_value = RawBytes bytes | Blob bytes

fun maybe_get_bytes :: "saved_value \<Rightarrow> bytes" where
  "maybe_get_bytes (RawBytes v) = v"
| "maybe_get_bytes (Blob d) = d"

text \<open>The keyword arguments of the call \<^verbatim>\<open>manager.train_workflow(...)\<close>.\<close>

record train_workflow_call =
  tw_train_dataset :: "opaque option"
  tw_eval_dataset :: "opaque option"
  tw_num_epochs :: int
  tw_use_gpu :: bool
  tw_setup_data :: "setup_data_dict option"
  tw_normalization_data_map :: "normalization_dict option"
  tw_named_model_ids :: module_ids
  tw_child_workflow_id :: int
  tw_reward_options :: opaque
  tw_reader_options :: opaque
  tw_resource_options :: opaque
  tw_warmstart_path :: "string option"

text \<open>
  A collaborator is given by what each of its methods returns or raises. A data module's
  \<^verbatim>\<open>prepare_data\<close> may return \<^verbatim>\<open>None\<close>.
\<close>

datatype data_module = DataModule (prepare_data: "setup_data_dict option outcome")

record manager =
  serving_module_names :: "string list"
  get_data_module ::
    "table_spec \<Rightarrow> opaque \<Rightarrow> opaque \<Rightarrow> setup_data_dict option \<Rightarrow> data_module option outcome"
  should_generate_eval_dataset :: bool
  query_data :: "table_spec \<Rightarrow> sample_range \<Rightarrow> opaque \<Rightarrow> opaque outcome"
  train_workflow :: "train_workflow_call \<Rightarrow> RLTrainingOutput outcome"

type_synonym model_validator = "RLTrainingOutput \<Rightarrow> opaque outcome"

type_synonym model_publisher =
  "manager \<Rightarrow> RLTrainingOutput \<Rightarrow> module_ids \<Rightarrow> int \<Rightarrow> opaque option \<Rightarrow> opaque outcome"

text \<open>
  What the module takes from its surroundings: identity allocation
  (\<^verbatim>\<open>reagent.workflow.env\<close>) and the default option bundles
  \<^verbatim>\<open>RewardOptions()\<close>, \<^verbatim>\<open>ReaderOptions()\<close>, \<^verbatim>\<open>ResourceOptions()\<close>.
\<close>

record env =
  get_workflow_id :: int
  get_new_named_entity_ids :: "string list \<Rightarrow> module_ids"
  new_RewardOptions :: opaque
  new_ReaderOptions :: opaque
  new_ResourceOptions :: opaque

text \<open>Every call that leaves the module is recorded, in order.\<close>

datatype event =
    EvGetWorkflowId
  | EvGetNewNamedEntityIds "string list"
  | EvLog string
  | EvGetDataModule "setup_data_dict option"
  | EvPrepareData
  | EvQueryData sample_range
  | EvTrainWorkflow train_workflow_call
  | EvValidate RLTrainingOutput
  | EvPublish RLTrainingOutput

text \<open>
  A computation yields the calls it made and either the exception that ended it or its
  value. Sequencing stops at the first exception and keeps the calls made so far.
\<close>

type_synonym 'a proc = "event list \<times> (exn + 'a)"

definition ret :: "'a \<Rightarrow> 'a proc" where
  "ret x = ([], Inr x)"

definition raise_exn :: "exn \<Rightarrow> 'a proc" where
  "raise_exn e = ([], Inl e)"

definition call :: "event \<Rightarrow> 'a outcome \<Rightarrow> 'a proc" where
  "call ev r =
     ([ev], case r of Inl why \<Rightarrow> Inl (CollaboratorError why) | Inr x \<Rightarrow> Inr x)"

definition bindp :: "'a proc \<Rightarrow> ('a \<Rightarrow> 'b proc) \<Rightarrow> 'b proc" where
  "bindp m f =
     (case snd m of
        Inl e \<Rightarrow> (fst m, Inl e)
      | Inr x \<Rightarrow> (fst m @ fst (f x), snd (f x)))"

section \<open>Validation and publishing stages (lines 223--254)\<close>

text \<open>
  A failing \<^verbatim>\<open>assert cond, msg\<close> evaluates \<^verbatim>\<open>msg\<close> before raising. Both messages
  are f-strings reading an attribute of the training output
  (\<^verbatim>\<open>validation_output\<close>, \<^verbatim>\<open>publishing_output\<close>), so the lookup comes first.
\<close>

definition run_validator :: "model_validator \<Rightarrow> RLTrainingOutput \<Rightarrow> RLTrainingOutput proc" where
  "run_validator validator training_output =
     (if validation_result training_output \<noteq> None then
        (case getattr_output training_output ''validation_output'' of
           Inl e \<Rightarrow> raise_exn e
         | Inr v \<Rightarrow> raise_exn (AssertionError [Lit ''validation_output was set to f'', OpaqueVal v]))
      else
        bindp (call (EvValidate training_output) (validator training_output))
          (\<lambda>validation_result'.
             ret (training_output\<lparr>validation_result := Some validation_result'\<rparr>)))"

definition run_publisher ::
  "model_publisher \<Rightarrow> manager \<Rightarrow> RLTrainingOutput \<Rightarrow> module_ids \<Rightarrow> int \<Rightarrow> opaque option
     \<Rightarrow> RLTrainingOutput proc" where
  "run_publisher publisher model_chooser training_output recurring_workflow_ids
       child_workflow_id recurring_period =
     (if publishing_result training_output \<noteq> None then
        (case getattr_output training_output ''publishing_output'' of
           Inl e \<Rightarrow> raise_exn e
         | Inr v \<Rightarrow> raise_exn (AssertionError [Lit ''publishing_output was set to f'', OpaqueVal v]))
      else
        bindp (call (EvPublish training_output)
                 (publisher model_chooser training_output recurring_workflow_ids
                    child_workflow_id recurring_period))
          (\<lambda>publishing_result'.
             ret (training_output\<lparr>publishing_result := Some publishing_result'\<rparr>)))"

section \<open>The stages on a store of records\<close>

text \<open>
  Training outputs are objects: a stage receives a reference, hands that reference to
  its collaborator, and returns a reference. To tell a new record from an assignment to
  the old one, the objects live in a store: the content of every address, and the next
  address that has not been allocated yet.
\<close>

type_synonym ref = nat

record store =
  objs :: "ref \<Rightarrow> RLTrainingOutput"
  next_free :: ref

text \<open>
  \<^verbatim>\<open>dataclasses.replace(obj, **changes)\<close> creates a new object of the same type: it
  reads the fields of \<^verbatim>\<open>obj\<close>, applies the changes and allocates the result. It does
  not write to \<^verbatim>\<open>obj\<close>.
\<close>

definition dataclasses_replace ::
  "store \<Rightarrow> ref \<Rightarrow> (RLTrainingOutput \<Rightarrow> RLTrainingOutput) \<Rightarrow> ref \<times> store" where
  "dataclasses_replace h obj changes =
     (next_free h,
      h\<lparr>objs := (objs h)(next_free h := changes (objs h obj)),
        next_free := Suc (next_free h)\<rparr>)"

text \<open>
  A collaborator called with a reference may read and write the store; it is given by
  what it returns or raises and by the store it leaves. A collaborator that only reads
  the record is one of these.
\<close>

type_synonym store_validator = "store \<Rightarrow> ref \<Rightarrow> opaque outcome \<times> store"

type_synonym store_publisher =
  "manager \<Rightarrow> store \<Rightarrow> ref \<Rightarrow> module_ids \<Rightarrow> int \<Rightarrow> opaque option \<Rightarrow> opaque outcome \<times> store"

definition reading_validator :: "model_validator \<Rightarrow> store_validator" where
  "reading_validator f h r = (f (objs h r), h)"

definition reading_publisher :: "model_publisher \<Rightarrow> store_publisher" where
  "reading_publisher f m h r ids wid rp = (f m (objs h r) ids wid rp, h)"

text \<open>
  \<^verbatim>\<open>run_validator\<close> and \<^verbatim>\<open>run_publisher\<close> (lines 223--254) on the store: the calls
  made, the exception or the reference returned, and the store the call leaves.
\<close>

definition run_validator_store ::
  "store_validator \<Rightarrow> store \<Rightarrow> ref \<Rightarrow> event list \<times> (exn + ref) \<times> store" where
  "run_validator_store validator h training_output =
     (if validation_result (objs h training_output) \<noteq> None then
        (case getattr_output (objs h training_output) ''validation_output'' of
           Inl e \<Rightarrow> ([], Inl e, h)
         | Inr v \<Rightarrow>
             ([], Inl (AssertionError [Lit ''validation_output was set to f'', OpaqueVal v]), h))
      else
        (case validator h training_output of
           (Inl why, h1) \<Rightarrow>
             ([EvValidate (objs h training_output)], Inl (CollaboratorError why), h1)
         | (Inr validation_result', h1) \<Rightarrow>
             (case dataclasses_replace h1 training_output
                     (\<lambda>t. t\<lparr>validation_result := Some validation_result'\<rparr>) of
                (new, h2) \<Rightarrow> ([EvValidate (objs h training_output)], Inr new, h2))))"

definition run_publisher_store ::
  "store_publisher \<Rightarrow> manager \<Rightarrow> store \<Rightarrow> ref \<Rightarrow> module_ids \<Rightarrow> int \<Rightarrow> opaque option
     \<Rightarrow> event list \<times> (exn + ref) \<times> store" where
  "run_publisher_store publisher model_chooser h training_output recurring_workflow_ids
       child_workflow_id recurring_period =
     (if publishing_result (objs h training_output) \<noteq> None then
        (case getattr_output (objs h training_output) ''publishing_output'' of
           Inl e \<Rightarrow> ([], Inl e, h)
         | Inr v \<Rightarrow>
             ([], Inl (AssertionError [Lit ''publishing_output was set to f'', OpaqueVal v]), h))
      else
        (case publisher model_chooser h training_output recurring_workflow_ids
                child_workflow_id recurring_period of
           (Inl why, h1) \<Rightarrow>
             ([EvPublish (objs h training_output)], Inl (CollaboratorError why), h1)
         | (Inr publishing_result', h1) \<Rightarrow>
             (case dataclasses_replace h1 training_output
                     (\<lambda>t. t\<lparr>publishing_result := Some publishing_result'\<rparr>) of
                (new, h2) \<Rightarrow> ([EvPublish (objs h training_output)], Inr new, h2))))"

section \<open>The orchestrator \<^verbatim>\<open>query_and_train\<close> (lines 118--220)\<close>

text \<open>
  The parameters of \<^verbatim>\<open>query_and_train\<close>. The argument \<^verbatim>\<open>model\<close> is a union
  wrapper whose \<^verbatim>\<open>.value\<close> is the manager; the wrapper is dropped, and likewise for
  the validator and the publisher.
\<close>

record query_and_train_args =
  input_table_spec :: table_spec
  model :: manager
  num_epochs :: int
  use_gpu :: bool
  setup_data :: "setup_data_dict option"
  saved_setup_data :: "(string \<rightharpoonup> saved_value) option"
  normalization_data_map :: "normalization_dict option"
  reward_options :: "opaque option"
  reader_options :: "opaque option"
  resource_options :: "opaque option"
  warmstart_path :: "string option"
  validator :: "model_validator option"
  publisher :: "model_publisher option"
  named_model_ids :: "module_ids option"
  recurring_period :: "opaque option"

text \<open>Lines 142--144: \<^verbatim>\<open>x or X()\<close> on an optional option bundle.\<close>

definition reward_options_or_default :: "env \<Rightarrow> query_and_train_args \<Rightarrow> opaque" where
  "reward_options_or_default ev a =
     (case reward_options a of None \<Rightarrow> new_RewardOptions ev | Some r \<Rightarrow> r)"

definition reader_options_or_default :: "env \<Rightarrow> query_and_train_args \<Rightarrow> opaque" where
  "reader_options_or_default ev a =
     (case reader_options a of None \<Rightarrow> new_ReaderOptions ev | Some r \<Rightarrow> r)"

definition resource_options_or_default :: "env \<Rightarrow> query_and_train_args \<Rightarrow> opaque" where
  "resource_options_or_default ev a =
     (case resource_options a of None \<Rightarrow> new_ResourceOptions ev | Some r \<Rightarrow> r)"

text \<open>Lines 147--156: the dict comprehension over \<^verbatim>\<open>saved_setup_data.items()\<close>.\<close>

definition unwrap_saved_setup_data ::
  "(string \<rightharpoonup> saved_value) option \<Rightarrow> setup_data_dict option" where
  "unwrap_saved_setup_data ssd =
     (case ssd of
        None \<Rightarrow> None
      | Some d \<Rightarrow> Some (\<lambda>k. case d k of None \<Rightarrow> None | Some v \<Rightarrow> Some (maybe_get_bytes v)))"

text \<open>
  Lines 136--138: the workflow id, and fresh entity ids when the caller gave none.
\<close>

definition allocate_ids :: "env \<Rightarrow> query_and_train_args \<Rightarrow> (int \<times> module_ids) proc" where
  "allocate_ids ev a =
     bindp (call EvGetWorkflowId (Inr (get_workflow_id ev)))
       (\<lambda>child_workflow_id.
          bindp
            (case named_model_ids a of
               None \<Rightarrow>
                 call (EvGetNewNamedEntityIds (serving_module_names (model a)))
                   (Inr (get_new_named_entity_ids ev (serving_module_names (model a))))
             | Some ids \<Rightarrow> ret ids)
            (\<lambda>ids. ret (child_workflow_id, ids)))"

text \<open>
  Lines 158--168: data resolution. It yields the values of the local variables
  \<^verbatim>\<open>setup_data\<close> and \<^verbatim>\<open>normalization_data_map\<close> as they stand at line 170.
\<close>

definition resolve_data ::
  "env \<Rightarrow> query_and_train_args
     \<Rightarrow> (setup_data_dict option \<times> normalization_dict option) proc" where
  "resolve_data ev a =
     (case setup_data a of
        Some sd \<Rightarrow> ret (Some sd, normalization_data_map a)
      | None \<Rightarrow>
          bindp
            (call (EvGetDataModule (unwrap_saved_setup_data (saved_setup_data a)))
               (get_data_module (model a) (input_table_spec a)
                  (reward_options_or_default ev a) (reader_options_or_default ev a)
                  (unwrap_saved_setup_data (saved_setup_data a))))
            (\<lambda>data_module.
               case data_module of
                 None \<Rightarrow> ret (None, normalization_data_map a)
               | Some dm \<Rightarrow>
                   bindp (call EvPrepareData (prepare_data dm))
                     (\<lambda>sd. ret (sd, None))))"

text \<open>Line 170: \<^verbatim>\<open>sum([int(setup_data is not None), int(normalization_data_map is not None)])\<close>.\<close>

definition count_present ::
  "setup_data_dict option \<Rightarrow> normalization_dict option \<Rightarrow> int" where
  "count_present sd nm =
     (if sd \<noteq> None then 1 else 0) + (if nm \<noteq> None then 1 else 0)"

text \<open>Lines 173--189: the dataset queries of the normalization path.\<close>

definition query_datasets ::
  "env \<Rightarrow> query_and_train_args \<Rightarrow> normalization_dict option
     \<Rightarrow> (opaque option \<times> opaque option) proc" where
  "query_datasets ev a nm =
     (case nm of
        None \<Rightarrow> ret (None, None)
      | Some _ \<Rightarrow>
          (let calc_cpe_in_training = should_generate_eval_dataset (model a)
           in bindp (([], get_sample_range (input_table_spec a) calc_cpe_in_training))
                (\<lambda>sample_range_output.
                   bindp
                     (call (EvQueryData (train_sample_range sample_range_output))
                        (query_data (model a) (input_table_spec a)
                           (train_sample_range sample_range_output)
                           (reward_options_or_default ev a)))
                     (\<lambda>train_dataset.
                        if calc_cpe_in_training then
                          bindp
                            (call (EvQueryData (eval_sample_range sample_range_output))
                               (query_data (model a) (input_table_spec a)
                                  (eval_sample_range sample_range_output)
                                  (reward_options_or_default ev a)))
                            (\<lambda>eval_dataset. ret (Some train_dataset, Some eval_dataset))
                        else ret (Some train_dataset, None)))))"

text \<open>Lines 191--205: the call of the training step.\<close>

definition train_call ::
  "env \<Rightarrow> query_and_train_args \<Rightarrow> int \<Rightarrow> module_ids \<Rightarrow> setup_data_dict option
     \<Rightarrow> normalization_dict option \<Rightarrow> opaque option \<Rightarrow> opaque option \<Rightarrow> train_workflow_call" where
  "train_call ev a child_workflow_id ids sd nm train_dataset eval_dataset =
     \<lparr>tw_train_dataset = train_dataset,
      tw_eval_dataset = eval_dataset,
      tw_num_epochs = num_epochs a,
      tw_use_gpu = use_gpu a,
      tw_setup_data = sd,
      tw_normalization_data_map = nm,
      tw_named_model_ids = ids,
      tw_child_workflow_id = child_workflow_id,
      tw_reward_options = reward_options_or_default ev a,
      tw_reader_options = reader_options_or_default ev a,
      tw_resource_options = resource_options_or_default ev a,
      tw_warmstart_path = warmstart_path a\<rparr>"

text \<open>
  Lines 170--220: everything after data resolution, given the allocated ids and the
  resolved pair.
\<close>

definition train_and_finish ::
  "env \<Rightarrow> query_and_train_args \<Rightarrow> int \<Rightarrow> module_ids \<Rightarrow> setup_data_dict option
     \<Rightarrow> normalization_dict option \<Rightarrow> RLTrainingOutput proc" where
  "train_and_finish ev a child_workflow_id ids sd nm =
     (if count_present sd nm \<noteq> 1 then
        raise_exn (ValueError ''setup_data and normalization_data_map are mutually exclusive'')
      else
        bindp (query_datasets ev a nm)
          (\<lambda>(train_dataset, eval_dataset).
             bindp (call (EvLog ''Starting training'') (Inr ()))
               (\<lambda>_.
                  bindp
                    (call (EvTrainWorkflow
                             (train_call ev a child_workflow_id ids sd nm train_dataset eval_dataset))
                       (train_workflow (model a)
                          (train_call ev a child_workflow_id ids sd nm train_dataset eval_dataset)))
                    (\<lambda>results.
                       bindp
                         (case validator a of
                            None \<Rightarrow> ret results
                          | Some v \<Rightarrow> run_validator v results)
                         (\<lambda>results.
                            case publisher a of
                              None \<Rightarrow> ret results
                            | Some p \<Rightarrow>
                                run_publisher p (model a) results ids child_workflow_id
                                  (recurring_period a))))))"

definition query_and_train :: "env \<Rightarrow> query_and_train_args \<Rightarrow> RLTrainingOutput proc" where
  "query_and_train ev a =
     bindp (allocate_ids ev a)
       (\<lambda>(child_workflow_id, ids).
          bindp (call (EvLog ''Starting query'') (Inr ()))
            (\<lambda>_.
               bindp (resolve_data ev a)
                 (\<lambda>(sd, nm). train_and_finish ev a child_workflow_id ids sd nm)))"

text \<open>Which recorded calls are query steps, training steps, data-module consultations.\<close>

fun is_query_or_train :: "event \<Rightarrow> bool" where
  "is_query_or_train (EvQueryData _) = True"
| "is_query_or_train (EvTrainWorkflow _) = True"
| "is_query_or_train _ = False"

fun is_data_module_call :: "event \<Rightarrow> bool" where
  "is_data_module_call (EvGetDataModule _) = True"
| "is_data_module_call EvPrepareData = True"
| "is_data_module_call _ = False"

section \<open>The reward-network evaluator (\<^verbatim>\<open>reagent/evaluation/reward_net_evaluator.py\<close>)\<close>

text \<open>
  A tensor is taken flattened, as the list of its entries; \<^verbatim>\<open>flatten\<close>,
  \<^verbatim>\<open>detach\<close> and \<^verbatim>\<open>cpu\<close> do not change the entries.
\<close>

type_synonym tensor = "real list"

text \<open>
  Modelled from the spec: the batch classes are declared in \<^verbatim>\<open>reagent.types\<close>, which
  is not part of the sources at hand. A ranking-style batch
  (\<^verbatim>\<open>PreprocessedRankingInput\<close>) carries a slate-level reward field, any other batch a
  scalar reward field; either field may hold \<^verbatim>\<open>None\<close>. The remaining content of a
  batch is opaque.
\<close>

datatype batch =
    PreprocessedRankingInput "tensor option" opaque
  | OtherInput "tensor option" opaque

fun slate_reward :: "batch \<Rightarrow> tensor option" where
  "slate_reward (PreprocessedRankingInput r _) = r"
| "slate_reward (OtherInput _ _) = None"

fun scalar_reward :: "batch \<Rightarrow> tensor option" where
  "scalar_reward (PreprocessedRankingInput _ _) = None"
| "scalar_reward (OtherInput r _) = r"

fun is_ranking :: "batch \<Rightarrow> bool" where
  "is_ranking (PreprocessedRankingInput _ _) = True"
| "is_ranking (OtherInput _ _) = False"

text \<open>
  The network: its mode flag, its weights, and what a forward pass returns (the
  \<^verbatim>\<open>predicted_reward\<close> of the output) or raises, which may depend on the mode.
  Only the flag of the module itself is modelled, not those of its submodules.
\<close>

record RewardNet =
  training :: bool
  weights :: opaque
  forward :: "bool \<Rightarrow> batch \<Rightarrow> tensor outcome"

record RewardNetTrainer =
  reward_net :: RewardNet
  loss_fn :: "tensor \<Rightarrow> tensor \<Rightarrow> tensor outcome"
  loss_type :: string

text \<open>
  \<^verbatim>\<open>best_model_loss\<close> is a real number: it holds the initial \<open>1e9\<close> or a mean that
  compared less than an earlier value, and so is never NaN.
\<close>

record RewardNetEvaluator =
  trainer :: RewardNetTrainer
  loss :: "tensor list"
  rewards :: "tensor list"
  pred_rewards :: "tensor list"
  best_model :: "RewardNet option"
  best_model_loss :: real

definition RewardNetEvaluator_init :: "RewardNetTrainer \<Rightarrow> RewardNetEvaluator" where
  "RewardNetEvaluator_init t =
     \<lparr>trainer = t, loss = [], rewards = [], pred_rewards = [],
      best_model = None, best_model_loss = 10 ^ 9\<rparr>"

text \<open>\<^verbatim>\<open>reward_net.eval()\<close> is \<^verbatim>\<open>reward_net.train(False)\<close>; the network is shared
  with the trainer, so the change is seen through \<^verbatim>\<open>self.trainer\<close>.\<close>

definition net_train :: "bool \<Rightarrow> RewardNetEvaluator \<Rightarrow> RewardNetEvaluator" where
  "net_train mode s =
     s\<lparr>trainer := (trainer s)\<lparr>reward_net := (reward_net (trainer s))\<lparr>training := mode\<rparr>\<rparr>\<rparr>"

definition mode_of :: "RewardNetEvaluator \<Rightarrow> bool" where
  "mode_of s = training (reward_net (trainer s))"

text \<open>Lines 35--38: the reward read from the batch.\<close>

fun batch_reward :: "batch \<Rightarrow> tensor option" where
  "batch_reward (PreprocessedRankingInput r _) = r"
| "batch_reward (OtherInput r _) = r"

text \<open>
  \<^verbatim>\<open>evaluate\<close> (lines 30--47) returns the evaluator as the call leaves it, together
  with the exception that ended the call, if any. There is no \<^verbatim>\<open>try\<close>: an exception
  leaves at the statement that raised it.
\<close>

definition evaluate :: "RewardNetEvaluator \<Rightarrow> batch \<Rightarrow> (exn + unit) \<times> RewardNetEvaluator" where
  "evaluate s eval_tdp =
     (let reward_net_prev_mode = mode_of s;
          s1 = net_train False s
      in case batch_reward eval_tdp of
           None \<Rightarrow> (Inl (AssertionError []), s1)
         | Some reward \<Rightarrow>
            (case forward (reward_net (trainer s1)) (mode_of s1) eval_tdp of
               Inl why \<Rightarrow> (Inl (CollaboratorError why), s1)
             | Inr pred_reward \<Rightarrow>
                (case loss_fn (trainer s1) pred_reward reward of
                   Inl why \<Rightarrow> (Inl (CollaboratorError why), s1)
                 | Inr l \<Rightarrow>
                     (Inr (),
                      net_train reward_net_prev_mode
                        (s1\<lparr>loss := loss s1 @ [l],
                            rewards := rewards s1 @ [reward],
                            pred_rewards := pred_rewards s1 @ [pred_reward]\<rparr>)))))"

text \<open>
  \<^verbatim>\<open>np.mean\<close> of a list of flattened tensors. Tensors of equal length form an array,
  whose mean is the mean of all entries; the mean of no entries is NaN, returned with a
  warning and without an exception. Tensors of different lengths do not form an array.
\<close>

datatype np_float = Fin real | NaN

definition np_mean :: "tensor list \<Rightarrow> exn + np_float" where
  "np_mean ts =
     (if list_ex (\<lambda>t. length t \<noteq> length (hd ts)) ts then
        Inl (ValueError ''inhomogeneous shape'')
      else if concat ts = [] then Inr NaN
      else Inr (Fin (sum_list (concat ts) / real (length (concat ts)))))"

text \<open>\<^verbatim>\<open>torch.cat\<close> of a list of flattened tensors; it rejects the empty list.\<close>

definition torch_cat :: "tensor list \<Rightarrow> exn + tensor" where
  "torch_cat ts =
     (if ts = [] then Inl (RuntimeError ''torch.cat(): expected a non-empty list of Tensors'')
      else Inr (concat ts))"

text \<open>\<^verbatim>\<open>mean_loss < self.best_model_loss\<close>: a comparison with NaN is false.\<close>

fun float_less :: "np_float \<Rightarrow> real \<Rightarrow> bool" where
  "float_less (Fin m) b = (m < b)"
| "float_less NaN b = False"

text \<open>
  The number stored by \<^verbatim>\<open>self.best_model_loss = mean_loss\<close>. The assignment is
  reached only after the comparison held, when \<^verbatim>\<open>mean_loss\<close> is a number.
\<close>

fun float_value :: "np_float \<Rightarrow> real \<Rightarrow> real" where
  "float_value (Fin m) b = m"
| "float_value NaN b = b"

record eval_res =
  res_loss :: np_float
  res_rewards :: tensor
  res_pred_rewards :: tensor

text \<open>What \<^verbatim>\<open>evaluate_post_training\<close> does besides changing the evaluator.\<close>

datatype eval_event = EvLogEvaluation string np_float | EvDeepCopy

text \<open>
  \<^verbatim>\<open>evaluate_post_training\<close> (lines 50--66): the effects, the result or the exception,
  and the evaluator as the call leaves it. \<^verbatim>\<open>copy.deepcopy\<close> yields an independent
  copy, which for a value is the value.
\<close>

definition evaluate_post_training ::
  "RewardNetEvaluator \<Rightarrow> eval_event list \<times> (exn + eval_res) \<times> RewardNetEvaluator" where
  "evaluate_post_training s =
     (case np_mean (loss s) of
        Inl e \<Rightarrow> ([], Inl e, s)
      | Inr mean_loss \<Rightarrow>
         (case torch_cat (rewards s) of
            Inl e \<Rightarrow> ([EvLogEvaluation (loss_type (trainer s)) mean_loss], Inl e, s)
          | Inr rs \<Rightarrow>
             (case torch_cat (pred_rewards s) of
                Inl e \<Rightarrow> ([EvLogEvaluation (loss_type (trainer s)) mean_loss], Inl e, s)
              | Inr ps \<Rightarrow>
                 (let eval_res = \<lparr>res_loss = mean_loss, res_rewards = rs, res_pred_rewards = ps\<rparr>;
                      s1 = s\<lparr>loss := [], rewards := [], pred_rewards := []\<rparr>
                  in if float_less mean_loss (best_model_loss s1) then
                       ([EvLogEvaluation (loss_type (trainer s)) mean_loss, EvDeepCopy],
                        Inr eval_res,
                        s1\<lparr>best_model_loss := float_value mean_loss (best_model_loss s1),
                           best_model := Some (reward_net (trainer s1))\<rparr>)
                     else
                       ([EvLogEvaluation (loss_type (trainer s)) mean_loss],
                        Inr eval_res, s1)))))"

text \<open>
  A use of the evaluator: evaluation calls, epoch-boundary calls, and in between the
  trainer replacing the weights of the live network. An exception ends the call that
  raised it, not the evaluator, which stays as that call left it.
\<close>

datatype evaluator_op = OpEvaluate batch | OpPostTraining | OpTrainerStep opaque

fun step :: "RewardNetEvaluator \<Rightarrow> evaluator_op \<Rightarrow> RewardNetEvaluator" where
  "step s (OpEvaluate b) = snd (evaluate s b)"
| "step s OpPostTraining = snd (snd (evaluate_post_training s))"
| "step s (OpTrainerStep w) =
     s\<lparr>trainer := (trainer s)\<lparr>reward_net := (reward_net (trainer s))\<lparr>weights := w\<rparr>\<rparr>\<rparr>"

definition run_ops :: "RewardNetEvaluator \<Rightarrow> evaluator_op list \<Rightarrow> RewardNetEvaluator" where
  "run_ops s ops = foldl step s ops"

section \<open>Concrete collaborators and inputs\<close>

definition demo_env :: env where
  "demo_env =
     \<lparr>get_workflow_id = 7,
      get_new_named_entity_ids = (\<lambda>names k. if k \<in> set names then Some 1 else None),
      new_RewardOptions = 0, new_ReaderOptions = 0, new_ResourceOptions = 0\<rparr>"

text \<open>A manager without a data module, whose queries and training succeed.\<close>

definition demo_manager :: manager where
  "demo_manager =
     \<lparr>serving_module_names = [''default_model''],
      get_data_module = (\<lambda>spec ro rd saved. Inr None),
      should_generate_eval_dataset = False,
      query_data = (\<lambda>spec range ro. Inr 5),
      train_workflow =
        (\<lambda>c. Inr \<lparr>training_results = 9, validation_result = None,
                    publishing_result = None\<rparr>)\<rparr>"

definition demo_table :: table_spec where
  "demo_table = \<lparr>table_name = ''tbl'', table_sample = None, eval_table_sample = None\<rparr>"

text \<open>A call that supplies neither setup data nor a normalization map.\<close>

definition demo_args :: query_and_train_args where
  "demo_args =
     \<lparr>input_table_spec = demo_table, model = demo_manager, num_epochs = 1, use_gpu = False,
      setup_data = None, saved_setup_data = None, normalization_data_map = None,
      reward_options = None, reader_options = None, resource_options = None,
      warmstart_path = None, validator = None, publisher = None,
      named_model_ids = None, recurring_period = None\<rparr>"

definition demo_setup :: setup_data_dict where
  "demo_setup = [''state'' \<mapsto> ''bytes'']"

definition demo_norm :: normalization_dict where
  "demo_norm = [''state'' \<mapsto> 3]"

definition demo_output :: RLTrainingOutput where
  "demo_output = \<lparr>training_results = 9, validation_result = None, publishing_result = None\<rparr>"

definition demo_validator :: model_validator where
  "demo_validator = (\<lambda>t. Inr 2)"

definition demo_publisher :: model_publisher where
  "demo_publisher = (\<lambda>m t ids wid rp. Inr 4)"

text \<open>
  A store holding one training output at address \<open>0\<close>, and a validator that writes to
  the record it is given before it returns.
\<close>

definition demo_store :: store where
  "demo_store = \<lparr>objs = (\<lambda>r. demo_output), next_free = 1\<rparr>"

definition touching_validator :: store_validator where
  "touching_validator h r =
     (Inr 2, h\<lparr>objs := (objs h)(r := (objs h r)\<lparr>training_results := 10\<rparr>)\<rparr>)"

text \<open>
  A network in training mode that predicts \<open>0\<close>, with the mean absolute error as its
  loss, and the same network with a forward pass that raises.
\<close>

definition demo_net :: RewardNet where
  "demo_net = \<lparr>training = True, weights = 0, forward = (\<lambda>mode b. Inr [0])\<rparr>"

definition l1_loss :: "tensor \<Rightarrow> tensor \<Rightarrow> tensor outcome" where
  "l1_loss p r = Inr [sum_list (map (\<lambda>(x, y). \<bar>x - y\<bar>) (zip p r)) / real (length r)]"

definition demo_trainer :: RewardNetTrainer where
  "demo_trainer = \<lparr>reward_net = demo_net, loss_fn = l1_loss, loss_type = ''mse''\<rparr>"

definition failing_trainer :: RewardNetTrainer where
  "failing_trainer =
     \<lparr>reward_net = \<lparr>training = True, weights = 0,
                    forward = (\<lambda>mode b. Inl ''forward pass failed'')\<rparr>,
      loss_fn = l1_loss, loss_type = ''mse''\<rparr>"

text \<open>
  An epoch of two batches with losses \<open>0.4\<close> and \<open>0.6\<close>; then, on the evaluator as
  the first epoch boundary left it, new weights and a batch with loss \<open>0.9\<close>.
\<close>

definition demo_epoch1 :: RewardNetEvaluator where
  "demo_epoch1 =
     run_ops (RewardNetEvaluator_init demo_trainer)
       [OpEvaluate (OtherInput (Some [2/5]) 0), OpEvaluate (OtherInput (Some [3/5]) 0)]"

definition demo_epoch2 :: RewardNetEvaluator where
  "demo_epoch2 =
     run_ops demo_epoch1
       [OpPostTraining, OpTrainerStep 1, OpEvaluate (OtherInput (Some [9/10]) 0)]"

section \<open>Sample ranges: properties\<close>

text \<open>
  C2, as the code has it. With both percentages set, their sum at most \<open>100 + 1e-3\<close> and
  cross-partition evaluation requested, \<^verbatim>\<open>get_sample_range\<close> returns the train range
  \<open>(0, table_sample)\<close> and the eval range \<open>(100 - eval_table_sample, 100)\<close>. The two
  ranges do not overlap when the sum is at most \<open>100\<close>; in general the train range
  reaches into the eval range by at most the tolerance \<open>1e-3\<close>.
\<close>

theorem get_sample_range_cross_eval:
  assumes "table_sample s = Some t"
    and "eval_table_sample s = Some e"
    and "t + e \<le> 100 + 1 / 1000"
  shows "get_sample_range s True =
           Inr \<lparr>train_sample_range = (0, t), eval_sample_range = (100 - e, 100)\<rparr>
         \<and> (t + e \<le> 100 \<longrightarrow> \<not> ranges_overlap (0, t) (100 - e, 100))
         \<and> t - (100 - e) \<le> 1 / 1000"
  using assms by (auto simp: get_sample_range_def ranges_overlap_def Let_def)

theorem get_sample_range_cross_eval_witness:
  "get_sample_range \<lparr>table_name = ''tbl'', table_sample = Some 80, eval_table_sample = Some 15\<rparr> True =
     Inr \<lparr>train_sample_range = (0, 80), eval_sample_range = (85, 100)\<rparr>
   \<and> \<not> ranges_overlap (0, 80) (85, 100)"
  using get_sample_range_cross_eval
          [of "\<lparr>table_name = ''tbl'', table_sample = Some 80, eval_table_sample = Some 15\<rparr>" 80 15]
  by simp

text \<open>
  C2 as stated fails: with \<open>table_sample = 50\<close> and \<open>eval_table_sample = 50 + 1/1024\<close>
  (both exact as binary floats, as are their sum and the difference from \<open>100\<close>) the
  check passes and the returned ranges share the window from \<open>49.9990234375\<close> to \<open>50\<close>.
\<close>

theorem sample_ranges_overlap_within_tolerance:
  "get_sample_range
     \<lparr>table_name = ''tbl'', table_sample = Some 50, eval_table_sample = Some (50 + 1 / 1024)\<rparr>
     True =
     Inr \<lparr>train_sample_range = (0, 50), eval_sample_range = (51199 / 1024, 100)\<rparr>
   \<and> ranges_overlap (0, 50) (51199 / 1024, 100)"
  by (simp add: get_sample_range_def ranges_overlap_def)

text \<open>
  C6. With cross-partition evaluation requested, if \<open>table_sample\<close> is unset, or
  \<open>eval_table_sample\<close> is unset, or their sum exceeds \<open>100 + 1e-3\<close>, then
  \<^verbatim>\<open>get_sample_range\<close> returns no ranges: it raises the assertion error whose message
  carries both current values and the required relationship
  \<open>eval_table_sample + table_sample <= 100\<close>.
\<close>

theorem get_sample_range_rejects:
  assumes "table_sample s = None \<or> eval_table_sample s = None \<or>
           (\<exists>t e. table_sample s = Some t \<and> eval_table_sample s = Some e
                  \<and> 100 + 1 / 1000 < t + e)"
  shows "get_sample_range s True =
           Inl (AssertionError (error_msg (table_sample s) (eval_table_sample s)))
         \<and> FloatVal (table_sample s) \<in> set (error_msg (table_sample s) (eval_table_sample s))
         \<and> FloatVal (eval_table_sample s)
             \<in> set (error_msg (table_sample s) (eval_table_sample s))
         \<and> Lit ''eval_table_sample + table_sample <= 100. ''
             \<in> set (error_msg (table_sample s) (eval_table_sample s))"
proof -
  have "get_sample_range s True =
          Inl (AssertionError (error_msg (table_sample s) (eval_table_sample s)))"
    using assms by (auto simp: get_sample_range_def Let_def split: option.splits)
  then show ?thesis by (simp add: error_msg_def)
qed

theorem get_sample_range_rejects_witness:
  "get_sample_range \<lparr>table_name = ''tbl'', table_sample = Some 80, eval_table_sample = Some 30\<rparr> True =
     Inl (AssertionError (error_msg (Some 80) (Some 30)))
   \<and> get_sample_range \<lparr>table_name = ''tbl'', table_sample = None, eval_table_sample = Some 30\<rparr> True =
     Inl (AssertionError (error_msg None (Some 30)))
   \<and> get_sample_range \<lparr>table_name = ''tbl'', table_sample = Some 80, eval_table_sample = None\<rparr> True =
     Inl (AssertionError (error_msg (Some 80) None))"
  using get_sample_range_rejects
          [of "\<lparr>table_name = ''tbl'', table_sample = Some 80, eval_table_sample = Some 30\<rparr>"]
        get_sample_range_rejects
          [of "\<lparr>table_name = ''tbl'', table_sample = None, eval_table_sample = Some 30\<rparr>"]
        get_sample_range_rejects
          [of "\<lparr>table_name = ''tbl'', table_sample = Some 80, eval_table_sample = None\<rparr>"]
  by simp

section \<open>Validation and publishing stages: properties\<close>

text \<open>
  C7, on the code. A training output whose \<^verbatim>\<open>validation_result\<close> is already set makes
  the assertion of \<^verbatim>\<open>run_validator\<close> fail, and the message of that assertion reads
  \<^verbatim>\<open>training_output.validation_output\<close>, which is not a field of the record: the call
  ends with an attribute error raised while the message is built, not with the assertion
  error. The same holds for \<^verbatim>\<open>run_publisher\<close> and \<^verbatim>\<open>publishing_output\<close>. In both
  cases the validator and the publisher are not called and no record is produced.
\<close>

theorem stage_rerun_raises_attribute_error:
  "run_validator demo_validator (demo_output\<lparr>validation_result := Some 1\<rparr>) =
     ([], Inl (AttributeError ''validation_output''))
   \<and> run_publisher demo_publisher demo_manager (demo_output\<lparr>publishing_result := Some 1\<rparr>)
        Map.empty 7 None =
     ([], Inl (AttributeError ''publishing_output''))"
  by (simp add: run_validator_def run_publisher_def getattr_output_def raise_exn_def
        demo_output_def)

text \<open>
  C8. On a training output whose \<^verbatim>\<open>validation_result\<close> is unset, and with a validator
  that returns, \<^verbatim>\<open>run_validator\<close> calls the validator once on the input record and
  returns a new record: its reference is a fresh address, different from the input's, and
  the record there differs from the input in \<^verbatim>\<open>validation_result\<close> only, now holding
  the validator's result. The input record is not mutated: with a validator that only
  reads, every object allocated before the call, the input among them, is as it was; with
  any validator, the stage writes nothing but the new record, so every other address holds
  what the validator left there. Symmetrically for \<^verbatim>\<open>run_publisher\<close> and
  \<^verbatim>\<open>publishing_result\<close>. On the record values the store version agrees with
  \<^verbatim>\<open>run_validator\<close> and \<^verbatim>\<open>run_publisher\<close> as used by the orchestrator.
\<close>

theorem stage_functional_update:
  "(validation_result t = None \<and> vd t = Inr v \<longrightarrow>
      (\<exists>t'. run_validator vd t = ([EvValidate t], Inr t')
            \<and> t' = t\<lparr>validation_result := Some v\<rparr>
            \<and> validation_result t' = Some v
            \<and> training_results t' = training_results t
            \<and> publishing_result t' = publishing_result t))
   \<and> (publishing_result t = None \<and> pb m t ids wid rp = Inr p \<longrightarrow>
      (\<exists>t'. run_publisher pb m t ids wid rp = ([EvPublish t], Inr t')
            \<and> t' = t\<lparr>publishing_result := Some p\<rparr>
            \<and> publishing_result t' = Some p
            \<and> training_results t' = training_results t
            \<and> validation_result t' = validation_result t))
   \<and> (r < next_free h \<and> validation_result (objs h r) = None \<and> vd (objs h r) = Inr v \<longrightarrow>
      (\<exists>new h2. run_validator_store (reading_validator vd) h r =
                   ([EvValidate (objs h r)], Inr new, h2)
         \<and> new = next_free h \<and> new \<noteq> r
         \<and> objs h2 r = objs h r
         \<and> (\<forall>x. x < next_free h \<longrightarrow> objs h2 x = objs h x)
         \<and> objs h2 new = (objs h r)\<lparr>validation_result := Some v\<rparr>
         \<and> validation_result (objs h2 new) = Some v
         \<and> training_results (objs h2 new) = training_results (objs h r)
         \<and> publishing_result (objs h2 new) = publishing_result (objs h r)
         \<and> run_validator vd (objs h r) = ([EvValidate (objs h r)], Inr (objs h2 new))))
   \<and> (r < next_free h \<and> publishing_result (objs h r) = None
        \<and> pb m (objs h r) ids wid rp = Inr p \<longrightarrow>
      (\<exists>new h2. run_publisher_store (reading_publisher pb) m h r ids wid rp =
                   ([EvPublish (objs h r)], Inr new, h2)
         \<and> new = next_free h \<and> new \<noteq> r
         \<and> objs h2 r = objs h r
         \<and> (\<forall>x. x < next_free h \<longrightarrow> objs h2 x = objs h x)
         \<and> objs h2 new = (objs h r)\<lparr>publishing_result := Some p\<rparr>
         \<and> publishing_result (objs h2 new) = Some p
         \<and> training_results (objs h2 new) = training_results (objs h r)
         \<and> validation_result (objs h2 new) = validation_result (objs h r)
         \<and> run_publisher pb m (objs h r) ids wid rp =
             ([EvPublish (objs h r)], Inr (objs h2 new))))
   \<and> (r < next_free h \<and> validation_result (objs h r) = None \<and> sv h r = (Inr v, h1)
        \<and> next_free h \<le> next_free h1 \<longrightarrow>
      (\<exists>new h2. run_validator_store sv h r = ([EvValidate (objs h r)], Inr new, h2)
         \<and> new = next_free h1 \<and> new \<noteq> r
         \<and> objs h2 new = (objs h1 r)\<lparr>validation_result := Some v\<rparr>
         \<and> (\<forall>x. x \<noteq> new \<longrightarrow> objs h2 x = objs h1 x)
         \<and> objs h2 r = objs h1 r))
   \<and> (r < next_free h \<and> publishing_result (objs h r) = None
        \<and> sp m h r ids wid rp = (Inr p, h1) \<and> next_free h \<le> next_free h1 \<longrightarrow>
      (\<exists>new h2. run_publisher_store sp m h r ids wid rp =
                   ([EvPublish (objs h r)], Inr new, h2)
         \<and> new = next_free h1 \<and> new \<noteq> r
         \<and> objs h2 new = (objs h1 r)\<lparr>publishing_result := Some p\<rparr>
         \<and> (\<forall>x. x \<noteq> new \<longrightarrow> objs h2 x = objs h1 x)
         \<and> objs h2 r = objs h1 r))"
proof -
  have pure: "(validation_result t = None \<and> vd t = Inr v \<longrightarrow>
      (\<exists>t'. run_validator vd t = ([EvValidate t], Inr t')
            \<and> t' = t\<lparr>validation_result := Some v\<rparr>
            \<and> validation_result t' = Some v
            \<and> training_results t' = training_results t
            \<and> publishing_result t' = publishing_result t))
   \<and> (publishing_result t = None \<and> pb m t ids wid rp = Inr p \<longrightarrow>
      (\<exists>t'. run_publisher pb m t ids wid rp = ([EvPublish t], Inr t')
            \<and> t' = t\<lparr>publishing_result := Some p\<rparr>
            \<and> publishing_result t' = Some p
            \<and> training_results t' = training_results t
            \<and> validation_result t' = validation_result t))"
    by (simp add: run_validator_def run_publisher_def bindp_def call_def ret_def)
  have rv: "r < next_free h \<and> validation_result (objs h r) = None \<and> vd (objs h r) = Inr v \<longrightarrow>
      (\<exists>new h2. run_validator_store (reading_validator vd) h r =
                   ([EvValidate (objs h r)], Inr new, h2)
         \<and> new = next_free h \<and> new \<noteq> r
         \<and> objs h2 r = objs h r
         \<and> (\<forall>x. x < next_free h \<longrightarrow> objs h2 x = objs h x)
         \<and> objs h2 new = (objs h r)\<lparr>validation_result := Some v\<rparr>
         \<and> validation_result (objs h2 new) = Some v
         \<and> training_results (objs h2 new) = training_results (objs h r)
         \<and> publishing_result (objs h2 new) = publishing_result (objs h r)
         \<and> run_validator vd (objs h r) = ([EvValidate (objs h r)], Inr (objs h2 new)))"
    by (auto simp: run_validator_store_def dataclasses_replace_def reading_validator_def
          run_validator_def bindp_def call_def ret_def)
  have rp: "r < next_free h \<and> publishing_result (objs h r) = None
        \<and> pb m (objs h r) ids wid rp = Inr p \<longrightarrow>
      (\<exists>new h2. run_publisher_store (reading_publisher pb) m h r ids wid rp =
                   ([EvPublish (objs h r)], Inr new, h2)
         \<and> new = next_free h \<and> new \<noteq> r
         \<and> objs h2 r = objs h r
         \<and> (\<forall>x. x < next_free h \<longrightarrow> objs h2 x = objs h x)
         \<and> objs h2 new = (objs h r)\<lparr>publishing_result := Some p\<rparr>
         \<and> publishing_result (objs h2 new) = Some p
         \<and> training_results (objs h2 new) = training_results (objs h r)
         \<and> validation_result (objs h2 new) = validation_result (objs h r)
         \<and> run_publisher pb m (objs h r) ids wid rp =
             ([EvPublish (objs h r)], Inr (objs h2 new)))"
    by (auto simp: run_publisher_store_def dataclasses_replace_def reading_publisher_def
          run_publisher_def bindp_def call_def ret_def)
  have gv: "r < next_free h \<and> validation_result (objs h r) = None \<and> sv h r = (Inr v, h1)
        \<and> next_free h \<le> next_free h1 \<longrightarrow>
      (\<exists>new h2. run_validator_store sv h r = ([EvValidate (objs h r)], Inr new, h2)
         \<and> new = next_free h1 \<and> new \<noteq> r
         \<and> objs h2 new = (objs h1 r)\<lparr>validation_result := Some v\<rparr>
         \<and> (\<forall>x. x \<noteq> new \<longrightarrow> objs h2 x = objs h1 x)
         \<and> objs h2 r = objs h1 r)"
    by (auto simp: run_validator_store_def dataclasses_replace_def)
  have gp: "r < next_free h \<and> publishing_result (objs h r) = None
        \<and> sp m h r ids wid rp = (Inr p, h1) \<and> next_free h \<le> next_free h1 \<longrightarrow>
      (\<exists>new h2. run_publisher_store sp m h r ids wid rp =
                   ([EvPublish (objs h r)], Inr new, h2)
         \<and> new = next_free h1 \<and> new \<noteq> r
         \<and> objs h2 new = (objs h1 r)\<lparr>publishing_result := Some p\<rparr>
         \<and> (\<forall>x. x \<noteq> new \<longrightarrow> objs h2 x = objs h1 x)
         \<and> objs h2 r = objs h1 r)"
    by (auto simp: run_publisher_store_def dataclasses_replace_def)
  from pure rv rp gv gp show ?thesis by blast
qed

theorem stage_functional_update_witness:
  "run_validator demo_validator demo_output =
     ([EvValidate demo_output],
      Inr \<lparr>training_results = 9, validation_result = Some 2, publishing_result = None\<rparr>)
   \<and> run_publisher demo_publisher demo_manager demo_output Map.empty 7 None =
     ([EvPublish demo_output],
      Inr \<lparr>training_results = 9, validation_result = None, publishing_result = Some 4\<rparr>)
   \<and> fst (snd (run_validator_store (reading_validator demo_validator) demo_store 0)) = Inr 1
   \<and> objs (snd (snd (run_validator_store (reading_validator demo_validator) demo_store 0))) 0 =
       demo_output
   \<and> objs (snd (snd (run_validator_store (reading_validator demo_validator) demo_store 0))) 1 =
       \<lparr>training_results = 9, validation_result = Some 2, publishing_result = None\<rparr>
   \<and> fst (snd (run_publisher_store (reading_publisher demo_publisher) demo_manager demo_store 0
                  Map.empty 7 None)) = Inr 1
   \<and> objs (snd (snd (run_publisher_store (reading_publisher demo_publisher) demo_manager
                        demo_store 0 Map.empty 7 None))) 0 = demo_output
   \<and> objs (snd (snd (run_publisher_store (reading_publisher demo_publisher) demo_manager
                        demo_store 0 Map.empty 7 None))) 1 =
       \<lparr>training_results = 9, validation_result = None, publishing_result = Some 4\<rparr>
   \<and> fst (snd (run_validator_store touching_validator demo_store 0)) = Inr 1
   \<and> objs (snd (snd (run_validator_store touching_validator demo_store 0))) 0 =
       \<lparr>training_results = 10, validation_result = None, publishing_result = None\<rparr>
   \<and> objs (snd (snd (run_validator_store touching_validator demo_store 0))) 1 =
       \<lparr>training_results = 10, validation_result = Some 2, publishing_result = None\<rparr>"
  using stage_functional_update
          [where t = demo_output and vd = demo_validator and v = 2 and pb = demo_publisher
             and m = demo_manager and ids = Map.empty and wid = 7 and rp = None and p = 4
             and h = demo_store and r = 0 and sv = touching_validator
             and sp = "reading_publisher demo_publisher"
             and ?h1.0 = "snd (touching_validator demo_store 0)"]
  by (simp add: demo_output_def demo_validator_def demo_publisher_def demo_store_def
        touching_validator_def reading_validator_def reading_publisher_def
        run_validator_store_def run_publisher_store_def dataclasses_replace_def
        run_validator_def run_publisher_def bindp_def call_def ret_def)

section \<open>The orchestrator: which calls each part makes\<close>

lemma bindp_trace:
  "e \<in> set (fst (bindp m f)) \<longleftrightarrow>
     e \<in> set (fst m) \<or> (\<exists>x. snd m = Inr x \<and> e \<in> set (fst (f x)))"
  by (auto simp: bindp_def split: sum.splits)

lemma allocate_ids_result:
  "\<exists>ids. snd (allocate_ids ev a) = Inr (get_workflow_id ev, ids)"
  by (simp add: allocate_ids_def bindp_def call_def ret_def split: option.splits)

lemma allocate_ids_trace:
  "e \<in> set (fst (allocate_ids ev a)) \<Longrightarrow> \<not> is_query_or_train e \<and> \<not> is_data_module_call e"
  by (auto simp: allocate_ids_def bindp_def call_def ret_def split: option.splits)

lemma resolve_data_trace:
  "e \<in> set (fst (resolve_data ev a)) \<Longrightarrow> \<not> is_query_or_train e \<and> setup_data a = None"
  by (auto simp: resolve_data_def bindp_def call_def ret_def split: option.splits sum.splits)


lemma query_datasets_trace:
  "e \<in> set (fst (query_datasets ev a nm)) \<Longrightarrow> (\<exists>r. e = EvQueryData r) \<and> nm \<noteq> None"
  by (auto simp: query_datasets_def bindp_def call_def ret_def Let_def
           split: option.splits sum.splits if_splits)


lemma run_validator_trace:
  "e \<in> set (fst (run_validator v t)) \<Longrightarrow> e = EvValidate t"
  by (auto simp: run_validator_def bindp_def call_def ret_def raise_exn_def
           split: option.splits sum.splits if_splits)

lemma run_publisher_trace:
  "e \<in> set (fst (run_publisher p m t ids w rp)) \<Longrightarrow> e = EvPublish t"
  by (auto simp: run_publisher_def bindp_def call_def ret_def raise_exn_def
           split: option.splits sum.splits if_splits)

lemma no_train_in_stages [simp]:
  "EvTrainWorkflow c \<notin> set (fst (query_datasets ev a nm))"
  "EvTrainWorkflow c \<notin> set (fst (run_validator v t))"
  "EvTrainWorkflow c \<notin> set (fst (run_publisher p m t ids w rp))"
  using query_datasets_trace run_validator_trace run_publisher_trace by blast+

lemma train_and_finish_rejects:
  "count_present sd nm \<noteq> 1 \<Longrightarrow>
     train_and_finish ev a w ids sd nm =
       ([], Inl (ValueError ''setup_data and normalization_data_map are mutually exclusive''))"
  by (simp add: train_and_finish_def raise_exn_def)

lemma train_and_finish_trace:
  assumes "EvTrainWorkflow c \<in> set (fst (train_and_finish ev a w ids sd nm))"
  shows "count_present sd nm = 1 \<and> tw_setup_data c = sd \<and> tw_normalization_data_map c = nm"
proof -
  have one: "count_present sd nm = 1"
    using assms by (cases "count_present sd nm = 1") (simp_all add: train_and_finish_rejects)
  have "\<exists>tr ed. c = train_call ev a w ids sd nm tr ed"
    using assms one
    by (auto simp: train_and_finish_def bindp_trace call_def ret_def
             split: option.splits prod.splits)
  then show ?thesis using one by (auto simp: train_call_def)
qed



text \<open>
  The call as a whole: the calls up to the log line \<open>Starting query\<close>, none of them a
  query, a training step or a consultation of the data module, then data resolution, then
  the rest.
\<close>

lemma query_and_train_unfold:
  "\<exists>t0 ids. (\<forall>e\<in>set t0. \<not> is_query_or_train e \<and> \<not> is_data_module_call e) \<and>
     query_and_train ev a =
       bindp (t0, Inr ()) (\<lambda>_. bindp (resolve_data ev a)
          (\<lambda>(sd, nm). train_and_finish ev a (get_workflow_id ev) ids sd nm))"
proof -
  obtain ids where r: "snd (allocate_ids ev a) = Inr (get_workflow_id ev, ids)"
    using allocate_ids_result by blast
  let ?t0 = "fst (allocate_ids ev a) @ [EvLog ''Starting query'']"
  have "\<forall>e\<in>set ?t0. \<not> is_query_or_train e \<and> \<not> is_data_module_call e"
    using allocate_ids_trace by auto
  moreover have "query_and_train ev a =
       bindp (?t0, Inr ()) (\<lambda>_. bindp (resolve_data ev a)
          (\<lambda>(sd, nm). train_and_finish ev a (get_workflow_id ev) ids sd nm))"
    using r by (simp add: query_and_train_def bindp_def call_def split: sum.splits)
  ultimately show ?thesis by blast
qed

text \<open>The definitions to unfold when a call is run on the concrete collaborators.\<close>

lemmas run_defs =
  query_and_train_def allocate_ids_def resolve_data_def train_and_finish_def
  query_datasets_def train_call_def count_present_def get_sample_range_def
  bindp_def call_def ret_def raise_exn_def unwrap_saved_setup_data_def
  reward_options_or_default_def reader_options_or_default_def
  resource_options_or_default_def
  demo_args_def demo_env_def demo_manager_def demo_table_def Let_def

section \<open>The orchestrator: properties\<close>

text \<open>
  C1. In every call of \<^verbatim>\<open>query_and_train\<close>, each call of the training step receives
  exactly one of \<^verbatim>\<open>setup_data\<close> and \<^verbatim>\<open>normalization_data_map\<close> as non-null. If data
  resolution ends with none or both of them non-null, the call raises the
  mutual-exclusivity \<^verbatim>\<open>ValueError\<close>, and no query and no training step has run.
\<close>

theorem query_and_train_exactly_one_source:
  "(\<forall>c. EvTrainWorkflow c \<in> set (fst (query_and_train ev a)) \<longrightarrow>
        (tw_setup_data c = None) \<noteq> (tw_normalization_data_map c = None))
   \<and> (\<forall>t sd nm. resolve_data ev a = (t, Inr (sd, nm)) \<and> ((sd = None) = (nm = None)) \<longrightarrow>
        snd (query_and_train ev a) =
          Inl (ValueError ''setup_data and normalization_data_map are mutually exclusive'')
        \<and> \<not> list_ex is_query_or_train (fst (query_and_train ev a)))"
proof -
  obtain t0 ids where t0: "\<forall>e\<in>set t0. \<not> is_query_or_train e \<and> \<not> is_data_module_call e"
    and q: "query_and_train ev a =
       bindp (t0, Inr ()) (\<lambda>_. bindp (resolve_data ev a)
          (\<lambda>(sd, nm). train_and_finish ev a (get_workflow_id ev) ids sd nm))"
    using query_and_train_unfold by blast
  have a: "(tw_setup_data c = None) \<noteq> (tw_normalization_data_map c = None)"
    if "EvTrainWorkflow c \<in> set (fst (query_and_train ev a))" for c
  proof -
    from that obtain sd nm where
      "EvTrainWorkflow c \<in> set (fst (train_and_finish ev a (get_workflow_id ev) ids sd nm))"
      using t0 resolve_data_trace unfolding q by (fastforce simp: bindp_trace)
    then have "count_present sd nm = 1 \<and> tw_setup_data c = sd
               \<and> tw_normalization_data_map c = nm"
      by (rule train_and_finish_trace)
    then show ?thesis by (auto simp: count_present_def split: if_splits)
  qed
  have b: "snd (query_and_train ev a) =
          Inl (ValueError ''setup_data and normalization_data_map are mutually exclusive'')
        \<and> \<not> list_ex is_query_or_train (fst (query_and_train ev a))"
    if r: "resolve_data ev a = (t, Inr (sd, nm))" and z: "(sd = None) = (nm = None)"
    for t sd nm
  proof -
    have cp: "count_present sd nm \<noteq> 1" using z by (auto simp: count_present_def)
    have tq: "\<forall>e\<in>set t. \<not> is_query_or_train e"
      using resolve_data_trace[of _ ev a] r by auto
    have "query_and_train ev a =
            (t0 @ t,
             Inl (ValueError ''setup_data and normalization_data_map are mutually exclusive''))"
      unfolding q using r cp by (simp add: bindp_def train_and_finish_rejects)
    then show ?thesis using t0 tq by (auto simp: list_ex_iff)
  qed
  show ?thesis using a b by blast
qed

theorem query_and_train_exactly_one_source_witness:
  "resolve_data demo_env demo_args = ([EvGetDataModule None], Inr (None, None))
   \<and> query_and_train demo_env demo_args =
       ([EvGetWorkflowId, EvGetNewNamedEntityIds [''default_model''], EvLog ''Starting query'',
         EvGetDataModule None],
        Inl (ValueError ''setup_data and normalization_data_map are mutually exclusive''))
   \<and> EvTrainWorkflow
         (train_call demo_env (demo_args\<lparr>normalization_data_map := Some demo_norm\<rparr>) 7
            (get_new_named_entity_ids demo_env [''default_model''])
            None (Some demo_norm) (Some 5) None)
       \<in> set (fst (query_and_train demo_env
                      (demo_args\<lparr>normalization_data_map := Some demo_norm\<rparr>)))
   \<and> resolve_data demo_env
        (demo_args\<lparr>setup_data := Some demo_setup, normalization_data_map := Some demo_norm\<rparr>) =
       ([], Inr (Some demo_setup, Some demo_norm))
   \<and> snd (query_and_train demo_env
        (demo_args\<lparr>setup_data := Some demo_setup, normalization_data_map := Some demo_norm\<rparr>)) =
       Inl (ValueError ''setup_data and normalization_data_map are mutually exclusive'')"
  using query_and_train_exactly_one_source [of demo_env demo_args]
        query_and_train_exactly_one_source
          [of demo_env "demo_args\<lparr>normalization_data_map := Some demo_norm\<rparr>"]
        query_and_train_exactly_one_source
          [of demo_env
              "demo_args\<lparr>setup_data := Some demo_setup, normalization_data_map := Some demo_norm\<rparr>"]
  by (simp add: run_defs)



section \<open>The evaluator: properties\<close>

lemmas eval_defs =
  evaluate_def evaluate_post_training_def np_mean_def torch_cat_def run_ops_def
  RewardNetEvaluator_init_def mode_of_def net_train_def l1_loss_def
  demo_trainer_def demo_net_def failing_trainer_def demo_epoch1_def demo_epoch2_def Let_def

text \<open>
  C3, as the code has it. A call of \<^verbatim>\<open>evaluate\<close> that returns normally leaves the
  mode flag of the network as it was before the call. A call that raises leaves the
  network in evaluation mode, whatever the flag was before.
\<close>

theorem evaluate_mode_flag:
  "(fst (evaluate s b) = Inr () \<longrightarrow> mode_of (snd (evaluate s b)) = mode_of s)
   \<and> (\<forall>e. fst (evaluate s b) = Inl e \<longrightarrow> mode_of (snd (evaluate s b)) = False)"
  by (auto simp: evaluate_def Let_def mode_of_def net_train_def
           split: option.splits sum.splits)

theorem evaluate_mode_flag_witness:
  "fst (evaluate (RewardNetEvaluator_init demo_trainer) (OtherInput (Some [2/5]) 0)) = Inr ()
   \<and> mode_of (snd (evaluate (RewardNetEvaluator_init demo_trainer)
                      (OtherInput (Some [2/5]) 0))) = True
   \<and> fst (evaluate (RewardNetEvaluator_init demo_trainer) (OtherInput None 0)) =
       Inl (AssertionError [])
   \<and> mode_of (snd (evaluate (RewardNetEvaluator_init demo_trainer) (OtherInput None 0))) = False"
  using evaluate_mode_flag
          [of "RewardNetEvaluator_init demo_trainer" "OtherInput (Some [2/5]) 0"]
        evaluate_mode_flag
          [of "RewardNetEvaluator_init demo_trainer" "OtherInput None 0"]
  by (simp add: eval_defs)

text \<open>
  C3 as stated fails: on a network in training mode, a ranking batch without slate reward
  makes the assertion fail, and a raising forward pass ends the call as well; both calls
  leave the network in evaluation mode.
\<close>

theorem evaluate_failure_leaves_eval_mode:
  "mode_of (RewardNetEvaluator_init demo_trainer) = True
   \<and> evaluate (RewardNetEvaluator_init demo_trainer) (PreprocessedRankingInput None 0) =
       (Inl (AssertionError []), net_train False (RewardNetEvaluator_init demo_trainer))
   \<and> mode_of (net_train False (RewardNetEvaluator_init demo_trainer)) = False
   \<and> mode_of (RewardNetEvaluator_init failing_trainer) = True
   \<and> evaluate (RewardNetEvaluator_init failing_trainer)
        (PreprocessedRankingInput (Some [1]) 0) =
       (Inl (CollaboratorError ''forward pass failed''),
        net_train False (RewardNetEvaluator_init failing_trainer))
   \<and> mode_of (net_train False (RewardNetEvaluator_init failing_trainer)) = False"
  by (simp add: eval_defs)

text \<open>
  C9. \<^verbatim>\<open>evaluate\<close> reads the slate-level reward of a ranking-style batch and the
  scalar reward of any other batch; a call that returns has appended exactly that reward.
  The assertion on the reward fails exactly when the batch holds neither a slate-level
  nor a scalar reward.
\<close>

theorem evaluate_reward_extraction:
  "batch_reward b = (if is_ranking b then slate_reward b else scalar_reward b)
   \<and> (fst (evaluate s b) = Inr () \<longrightarrow>
        (\<exists>r. batch_reward b = Some r \<and> rewards (snd (evaluate s b)) = rewards s @ [r]))
   \<and> (fst (evaluate s b) = Inl (AssertionError []) \<longleftrightarrow>
        slate_reward b = None \<and> scalar_reward b = None)"
  by (cases b)
     (auto simp: evaluate_def Let_def mode_of_def net_train_def split: option.splits sum.splits)

theorem evaluate_reward_extraction_witness:
  "rewards (snd (evaluate (RewardNetEvaluator_init demo_trainer)
                   (PreprocessedRankingInput (Some [1]) 0))) = [[1]]
   \<and> rewards (snd (evaluate (RewardNetEvaluator_init demo_trainer)
                   (OtherInput (Some [2/5]) 0))) = [[2/5]]
   \<and> fst (evaluate (RewardNetEvaluator_init demo_trainer) (PreprocessedRankingInput None 0)) =
       Inl (AssertionError [])"
  using evaluate_reward_extraction
          [of "PreprocessedRankingInput (Some [1]) 0" "RewardNetEvaluator_init demo_trainer"]
        evaluate_reward_extraction
          [of "OtherInput (Some [2/5]) 0" "RewardNetEvaluator_init demo_trainer"]
        evaluate_reward_extraction
          [of "PreprocessedRankingInput None 0" "RewardNetEvaluator_init demo_trainer"]
  by (simp add: eval_defs)

section \<open>The evaluator: the best model and the accumulators\<close>

lemma evaluate_keeps_best:
  "best_model_loss (snd (evaluate s b)) = best_model_loss s
   \<and> best_model (snd (evaluate s b)) = best_model s"
  by (simp add: evaluate_def Let_def net_train_def split: option.splits sum.splits)

lemma post_training_best_le:
  "best_model_loss (snd (snd (evaluate_post_training s))) \<le> best_model_loss s"
  by (cases "np_mean (loss s)")
     (auto simp: evaluate_post_training_def Let_def split: sum.splits np_float.splits
           elim: float_less.elims)

lemma step_best_le: "best_model_loss (step s x) \<le> best_model_loss s"
  by (cases x) (simp_all add: evaluate_keeps_best post_training_best_le)

lemma run_ops_best_le: "best_model_loss (run_ops s ops) \<le> best_model_loss s"
  unfolding run_ops_def
proof (induction ops arbitrary: s)
  case Nil
  show ?case by simp
next
  case (Cons x ops)
  have "best_model_loss (foldl step (step s x) ops) \<le> best_model_loss (step s x)"
    by (rule Cons.IH)
  also have "\<dots> \<le> best_model_loss s" by (rule step_best_le)
  finally show ?case by simp
qed

lemma post_training_success:
  assumes "evaluate_post_training s = (tr, Inr res, s')"
  shows "np_mean (loss s) = Inr (res_loss res)"
    and "loss s' = []" and "rewards s' = []" and "pred_rewards s' = []"
    and "trainer s' = trainer s"
    and "float_less (res_loss res) (best_model_loss s) \<Longrightarrow>
           res_loss res = Fin (best_model_loss s')
           \<and> best_model s' = Some (reward_net (trainer s))
           \<and> tr = [EvLogEvaluation (loss_type (trainer s)) (res_loss res), EvDeepCopy]"
    and "\<not> float_less (res_loss res) (best_model_loss s) \<Longrightarrow>
           best_model_loss s' = best_model_loss s \<and> best_model s' = best_model s
           \<and> tr = [EvLogEvaluation (loss_type (trainer s)) (res_loss res)]"
  using assms
  by (auto simp: evaluate_post_training_def Let_def split: sum.splits if_splits
           elim: float_less.elims)

lemma post_training_empty:
  assumes "loss s = []" and "rewards s = []"
  shows "evaluate_post_training s =
     ([EvLogEvaluation (loss_type (trainer s)) NaN],
      Inl (RuntimeError ''torch.cat(): expected a non-empty list of Tensors''), s)"
  using assms by (simp add: evaluate_post_training_def np_mean_def torch_cat_def)

text \<open>
  C4. The evaluator starts with \<^verbatim>\<open>best_model_loss = 1e9\<close>, and over every sequence of
  evaluator calls \<^verbatim>\<open>best_model_loss\<close> never increases. At a successful
  \<^verbatim>\<open>evaluate_post_training\<close>, if the mean loss is strictly less than the prior best,
  the best model becomes a copy of the current network and the best loss the mean;
  otherwise both stay and no copy is made. Losses \<open>0.4\<close> and \<open>0.6\<close> against the
  initial \<open>1e9\<close> give the mean and the best loss \<open>0.5\<close> and a copy of the current
  network; a loss \<open>0.9\<close> against the best \<open>0.5\<close> changes neither.
\<close>

theorem best_model_tracking:
  "best_model_loss (RewardNetEvaluator_init t) = 10 ^ 9
   \<and> best_model_loss (run_ops s ops) \<le> best_model_loss s
   \<and> (evaluate_post_training s = (tr, Inr res, s') \<longrightarrow>
        best_model_loss s' \<le> best_model_loss s
        \<and> (if float_less (res_loss res) (best_model_loss s)
           then best_model s' = Some (reward_net (trainer s))
                \<and> res_loss res = Fin (best_model_loss s') \<and> EvDeepCopy \<in> set tr
           else best_model s' = best_model s
                \<and> best_model_loss s' = best_model_loss s \<and> EvDeepCopy \<notin> set tr))
   \<and> (loss s1 = [[2/5], [3/5]] \<and> rewards s1 \<noteq> [] \<and> pred_rewards s1 \<noteq> []
        \<and> best_model_loss s1 = 10 ^ 9 \<longrightarrow>
        fst (snd (evaluate_post_training s1)) =
          Inr \<lparr>res_loss = Fin (1/2), res_rewards = concat (rewards s1),
               res_pred_rewards = concat (pred_rewards s1)\<rparr>
        \<and> best_model_loss (snd (snd (evaluate_post_training s1))) = 1/2
        \<and> best_model (snd (snd (evaluate_post_training s1))) = Some (reward_net (trainer s1)))
   \<and> (loss s2 = [[9/10]] \<and> rewards s2 \<noteq> [] \<and> pred_rewards s2 \<noteq> []
        \<and> best_model_loss s2 = 1/2 \<longrightarrow>
        fst (snd (evaluate_post_training s2)) =
          Inr \<lparr>res_loss = Fin (9/10), res_rewards = concat (rewards s2),
               res_pred_rewards = concat (pred_rewards s2)\<rparr>
        \<and> best_model_loss (snd (snd (evaluate_post_training s2))) = 1/2
        \<and> best_model (snd (snd (evaluate_post_training s2))) = best_model s2)"
proof -
  have a: "best_model_loss (RewardNetEvaluator_init t) = 10 ^ 9"
    by (simp add: RewardNetEvaluator_init_def)
  have c: "best_model_loss s' \<le> best_model_loss s
        \<and> (if float_less (res_loss res) (best_model_loss s)
           then best_model s' = Some (reward_net (trainer s))
                \<and> res_loss res = Fin (best_model_loss s') \<and> EvDeepCopy \<in> set tr
           else best_model s' = best_model s
                \<and> best_model_loss s' = best_model_loss s \<and> EvDeepCopy \<notin> set tr)"
    if h: "evaluate_post_training s = (tr, Inr res, s')"
  proof -
    have "best_model_loss s' \<le> best_model_loss s"
      using post_training_best_le[of s] h by simp
    then show ?thesis
      using post_training_success(6,7)[OF h] by auto
  qed
  have d: "fst (snd (evaluate_post_training s1)) =
          Inr \<lparr>res_loss = Fin (1/2), res_rewards = concat (rewards s1),
               res_pred_rewards = concat (pred_rewards s1)\<rparr>
        \<and> best_model_loss (snd (snd (evaluate_post_training s1))) = 1/2
        \<and> best_model (snd (snd (evaluate_post_training s1))) = Some (reward_net (trainer s1))"
    if "loss s1 = [[2/5], [3/5]] \<and> rewards s1 \<noteq> [] \<and> pred_rewards s1 \<noteq> []
        \<and> best_model_loss s1 = 10 ^ 9"
    using that by (simp add: evaluate_post_training_def np_mean_def torch_cat_def Let_def)
  have e: "fst (snd (evaluate_post_training s2)) =
          Inr \<lparr>res_loss = Fin (9/10), res_rewards = concat (rewards s2),
               res_pred_rewards = concat (pred_rewards s2)\<rparr>
        \<and> best_model_loss (snd (snd (evaluate_post_training s2))) = 1/2
        \<and> best_model (snd (snd (evaluate_post_training s2))) = best_model s2"
    if "loss s2 = [[9/10]] \<and> rewards s2 \<noteq> [] \<and> pred_rewards s2 \<noteq> []
        \<and> best_model_loss s2 = 1/2"
    using that by (simp add: evaluate_post_training_def np_mean_def torch_cat_def Let_def)
  show ?thesis using a run_ops_best_le c d e by blast
qed

theorem best_model_tracking_witness:
  "loss demo_epoch1 = [[2/5], [3/5]] \<and> best_model_loss demo_epoch1 = 10 ^ 9
   \<and> best_model demo_epoch1 = None
   \<and> evaluate_post_training demo_epoch1 =
       ([EvLogEvaluation ''mse'' (Fin (1/2)), EvDeepCopy],
        Inr \<lparr>res_loss = Fin (1/2), res_rewards = [2/5, 3/5], res_pred_rewards = [0, 0]\<rparr>,
        (RewardNetEvaluator_init demo_trainer)
          \<lparr>best_model := Some demo_net, best_model_loss := 1/2\<rparr>)
   \<and> loss demo_epoch2 = [[9/10]] \<and> best_model_loss demo_epoch2 = 1/2
   \<and> best_model demo_epoch2 = Some demo_net
   \<and> weights (reward_net (trainer demo_epoch2)) = 1
   \<and> best_model_loss (snd (snd (evaluate_post_training demo_epoch2))) = 1/2
   \<and> best_model (snd (snd (evaluate_post_training demo_epoch2))) = Some demo_net
   \<and> fst (evaluate_post_training demo_epoch2) = [EvLogEvaluation ''mse'' (Fin (9/10))]"
  using best_model_tracking
          [where t = demo_trainer and s = demo_epoch1 and ops = "[OpPostTraining]"
             and tr = "[EvLogEvaluation ''mse'' (Fin (1/2)), EvDeepCopy]"
             and res = "\<lparr>res_loss = Fin (1/2), res_rewards = [2/5, 3/5],
                          res_pred_rewards = [0, 0]\<rparr>"
             and s' = "(RewardNetEvaluator_init demo_trainer)
                         \<lparr>best_model := Some demo_net, best_model_loss := 1/2\<rparr>"
             and ?s1.0 = demo_epoch1 and ?s2.0 = demo_epoch2]
  by (simp add: eval_defs)

text \<open>
  C5, as the code has it. After every successful \<^verbatim>\<open>evaluate_post_training\<close> the three
  accumulators are empty, and a call on empty accumulators (such as the next call with no
  \<^verbatim>\<open>evaluate\<close> in between) fails. It does not fail at the mean: \<^verbatim>\<open>np.mean\<close> of the
  empty loss list is NaN, the NaN is logged, and the exception is the
  \<^verbatim>\<open>RuntimeError\<close> of \<^verbatim>\<open>torch.cat\<close> on the empty rewards list. The failed call leaves
  the evaluator as it was.
\<close>

theorem post_training_drains:
  "(evaluate_post_training s = (tr, Inr res, s') \<longrightarrow>
       loss s' = [] \<and> rewards s' = [] \<and> pred_rewards s' = []
       \<and> evaluate_post_training s' =
           ([EvLogEvaluation (loss_type (trainer s')) NaN],
            Inl (RuntimeError ''torch.cat(): expected a non-empty list of Tensors''), s'))
   \<and> (loss s = [] \<and> rewards s = [] \<and> pred_rewards s = [] \<longrightarrow>
       np_mean (loss s) = Inr NaN
       \<and> evaluate_post_training s =
           ([EvLogEvaluation (loss_type (trainer s)) NaN],
            Inl (RuntimeError ''torch.cat(): expected a non-empty list of Tensors''), s))"
proof -
  have "loss s' = [] \<and> rewards s' = [] \<and> pred_rewards s' = []
       \<and> evaluate_post_training s' =
           ([EvLogEvaluation (loss_type (trainer s')) NaN],
            Inl (RuntimeError ''torch.cat(): expected a non-empty list of Tensors''), s')"
    if h: "evaluate_post_training s = (tr, Inr res, s')"
    using post_training_success(2,3,4)[OF h] post_training_empty[of s'] by simp
  moreover have "np_mean (loss s) = Inr NaN
       \<and> evaluate_post_training s =
           ([EvLogEvaluation (loss_type (trainer s)) NaN],
            Inl (RuntimeError ''torch.cat(): expected a non-empty list of Tensors''), s)"
    if "loss s = [] \<and> rewards s = [] \<and> pred_rewards s = []"
    using that post_training_empty[of s] by (simp add: np_mean_def)
  ultimately show ?thesis by blast
qed

theorem post_training_drains_witness:
  "loss (snd (snd (evaluate_post_training demo_epoch1))) = []
   \<and> rewards (snd (snd (evaluate_post_training demo_epoch1))) = []
   \<and> pred_rewards (snd (snd (evaluate_post_training demo_epoch1))) = []
   \<and> fst (snd (evaluate_post_training (snd (snd (evaluate_post_training demo_epoch1))))) =
       Inl (RuntimeError ''torch.cat(): expected a non-empty list of Tensors'')
   \<and> fst (snd (evaluate_post_training (RewardNetEvaluator_init demo_trainer))) =
       Inl (RuntimeError ''torch.cat(): expected a non-empty list of Tensors'')"
  using post_training_drains
          [where s = demo_epoch1
             and tr = "[EvLogEvaluation ''mse'' (Fin (1/2)), EvDeepCopy]"
             and res = "\<lparr>res_loss = Fin (1/2), res_rewards = [2/5, 3/5],
                          res_pred_rewards = [0, 0]\<rparr>"
             and s' = "(RewardNetEvaluator_init demo_trainer)
                         \<lparr>best_model := Some demo_net, best_model_loss := 1/2\<rparr>"]
        post_training_drains [where s = "RewardNetEvaluator_init demo_trainer"]
  by (simp add: eval_defs)

text \<open>
  C5 as stated fails: on a fresh evaluator the mean computation does not raise but yields
  NaN, which is logged before \<^verbatim>\<open>torch.cat\<close> raises.
\<close>

theorem empty_accumulator_mean_is_nan:
  "loss (RewardNetEvaluator_init demo_trainer) = []
   \<and> np_mean (loss (RewardNetEvaluator_init demo_trainer)) = Inr NaN
   \<and> evaluate_post_training (RewardNetEvaluator_init demo_trainer) =
       ([EvLogEvaluation ''mse'' NaN],
        Inl (RuntimeError ''torch.cat(): expected a non-empty list of Tensors''),
        RewardNetEvaluator_init demo_trainer)"
  by (simp add: eval_defs)

end
